theory Spec2Isabelle
  imports Complex_Main
begin

section \<open>Parsed documents\<close>

text \<open>
  \<^verbatim>\<open>thread_reader.py\<close> reads forum pages through BeautifulSoup. A parsed document is a
  tree: a string node, or a tag with a name, an attribute dictionary and children. The
  parser stores an ordinary attribute as one string and a multi-valued attribute
  (\<^verbatim>\<open>class\<close>) as the list of its tokens. Strings are Python \<^verbatim>\<open>str\<close> values, held here as
  \<^typ>\<open>string\<close> (UTF-8 bytes); the functions below only concatenate and compare them.
\<close>

datatype attr_value = Str string | Multi "string list"

datatype node = Text string | Tag string "(string \<times> attr_value) list" "node list"

text \<open>The exceptions the module can meet.\<close>

datatype py_error = AttributeError | IndexError | ValueError | KeyError | TypeError
  | OverflowError | ZeroDivisionError

fun tag_name :: "node \<Rightarrow> string option" where
  "tag_name (Text s) = None"
| "tag_name (Tag n as cs) = Some n"

text \<open>\<^verbatim>\<open>tag.attrs.get(k)\<close>: the attribute dictionary, looked up by key.\<close>

fun attr :: "node \<Rightarrow> string \<Rightarrow> attr_value option" where
  "attr (Text s) k = None"
| "attr (Tag n as cs) k = map_of as k"

text \<open>The descendants of a node in document order (the node itself is not one).\<close>

fun descendants :: "node \<Rightarrow> node list" where
  "descendants (Text s) = []"
| "descendants (Tag n as cs) = concat (map (\<lambda>c. c # descendants c) cs)"

text \<open>\<^verbatim>\<open>.text\<close>: every string below the node, concatenated in document order.\<close>

fun text_of :: "node \<Rightarrow> string" where
  "text_of (Text s) = s"
| "text_of (Tag n as cs) = concat (map text_of cs)"

text \<open>
  \<^verbatim>\<open>find_all\<close> with a filter \<open>P\<close> on tags, and \<^verbatim>\<open>find\<close>, its first result or
  \<^verbatim>\<open>None\<close>.
\<close>

definition find_all :: "(node \<Rightarrow> bool) \<Rightarrow> node \<Rightarrow> node list" where
  "find_all P n = filter P (descendants n)"

definition find_first :: "(node \<Rightarrow> bool) \<Rightarrow> node \<Rightarrow> node option" where
  "find_first P n = (case find_all P n of [] \<Rightarrow> None | x # xs \<Rightarrow> Some x)"

text \<open>
  How the library matches an attribute value against the wanted strings: a plain value by
  equality; a multi-valued one when some token is wanted, or else when its tokens joined by
  single spaces are.
\<close>

fun join_spaces :: "string list \<Rightarrow> string" where
  "join_spaces [] = []"
| "join_spaces [t] = t"
| "join_spaces (t # u # ts) = t @ '' '' @ join_spaces (u # ts)"

fun value_matches :: "string list \<Rightarrow> attr_value \<Rightarrow> bool" where
  "value_matches wanted (Str s) = (s \<in> set wanted)"
| "value_matches wanted (Multi ts) =
     ((\<exists>t \<in> set ts. t \<in> set wanted) \<or> join_spaces ts \<in> set wanted)"

definition is_tag :: "string \<Rightarrow> node \<Rightarrow> bool" where
  "is_tag nm n = (tag_name n = Some nm)"

text \<open>\<^verbatim>\<open>find('div', id='bottompanel')\<close>, \<^verbatim>\<open>find(..., class_=...)\<close>: name and one attribute.\<close>

definition tag_with :: "string \<Rightarrow> string \<Rightarrow> string list \<Rightarrow> node \<Rightarrow> bool" where
  "tag_with nm k wanted n =
     (is_tag nm n \<and> (case attr n k of None \<Rightarrow> False | Some v \<Rightarrow> value_matches wanted v))"

text \<open>\<^verbatim>\<open>attrs={k: True, ...}\<close>: name and the presence of every listed attribute.\<close>

definition tag_having :: "string \<Rightarrow> string list \<Rightarrow> node \<Rightarrow> bool" where
  "tag_having nm ks n = (is_tag nm n \<and> (\<forall>k \<in> set ks. attr n k \<noteq> None))"

text \<open>
  \<^verbatim>\<open>int(tag[k])\<close>: a missing key raises \<^verbatim>\<open>KeyError\<close>, a token list is no number
  (\<^verbatim>\<open>TypeError\<close>), a string that is no integer literal raises \<^verbatim>\<open>ValueError\<close>. The
  builtin \<^verbatim>\<open>int\<close> on strings is the parameter \<open>py_int\<close>, \<open>None\<close> standing for its
  \<^verbatim>\<open>ValueError\<close>.
\<close>

definition item :: "node \<Rightarrow> string \<Rightarrow> py_error + attr_value" where
  "item n k = (case attr n k of None \<Rightarrow> Inl KeyError | Some v \<Rightarrow> Inr v)"

fun int_of_value :: "(string \<Rightarrow> int option) \<Rightarrow> attr_value \<Rightarrow> py_error + int" where
  "int_of_value py_int (Str s) = (case py_int s of None \<Rightarrow> Inl ValueError | Some i \<Rightarrow> Inr i)"
| "int_of_value py_int (Multi ts) = Inl TypeError"

definition int_item :: "(string \<Rightarrow> int option) \<Rightarrow> node \<Rightarrow> string \<Rightarrow> py_error + int" where
  "int_item py_int n k = (case item n k of Inl e \<Rightarrow> Inl e | Inr v \<Rightarrow> int_of_value py_int v)"

section \<open>Pagination resolver\<close>

text \<open>
  \<^verbatim>\<open>xs[-2]\<close> raises \<^verbatim>\<open>IndexError\<close> on fewer than two elements.
\<close>

definition second_to_last :: "'a list \<Rightarrow> py_error + 'a" where
  "second_to_last xs =
     (if length xs < 2 then Inl IndexError else Inr (xs ! (length xs - 2)))"

text \<open>
  The body of the \<^verbatim>\<open>try\<close> in \<^verbatim>\<open>get_total_pages\<close>: \<^verbatim>\<open>panel.find_all\<close> on a panel that
  is \<^verbatim>\<open>None\<close> raises \<^verbatim>\<open>AttributeError\<close>.
\<close>

definition total_pages_body :: "(string \<Rightarrow> int option) \<Rightarrow> node \<Rightarrow> py_error + int" where
  "total_pages_body py_int html =
     (case find_first (tag_with ''div'' ''id'' [''bottompanel'']) html of
        None \<Rightarrow> Inl AttributeError
      | Some panel \<Rightarrow>
          (case second_to_last (find_all (is_tag ''a'') panel) of
             Inl e \<Rightarrow> Inl e
           | Inr link \<Rightarrow>
               (case py_int (text_of link) of None \<Rightarrow> Inl ValueError | Some i \<Rightarrow> Inr i)))"

text \<open>\<^verbatim>\<open>except (AttributeError, IndexError, ValueError): return 1\<close>.\<close>

definition get_total_pages :: "(string \<Rightarrow> int option) \<Rightarrow> node \<Rightarrow> py_error + int" where
  "get_total_pages py_int html =
     (case total_pages_body py_int html of
        Inr i \<Rightarrow> Inr i
      | Inl e \<Rightarrow> (if e \<in> {AttributeError, IndexError, ValueError} then Inr 1 else Inl e))"

section \<open>Values handed to the game\<close>

text \<open>
  \<^verbatim>\<open>Stage\<close>, \<^verbatim>\<open>GameStage\<close> and \<^verbatim>\<open>GameAction\<close> are imported by the module and built with
  keyword arguments: plain value records with the fields named below (the \<^verbatim>\<open>post_id\<close>
  of a \<^verbatim>\<open>GameAction\<close> is \<open>action_post_id\<close>, the name being taken by \<^verbatim>\<open>GameStage\<close>).
\<close>

datatype Stage = Day | Night | End

record GameStage =
  post_id :: int
  game_stage :: Stage
  stage_start_time :: int

record GameAction =
  action_post_id :: int
  post_time :: int
  contents :: string
  author :: string

section \<open>Addresses\<close>

text \<open>\<^verbatim>\<open>str\<close> of an integer, as the f-strings that build addresses render it.\<close>

fun str_nat :: "nat \<Rightarrow> string" where
  "str_nat n =
     (if n < 10 then [char_of (48 + n)] else str_nat (n div 10) @ [char_of (48 + n mod 10)])"

declare str_nat.simps [simp del]

definition str_int :: "int \<Rightarrow> string" where
  "str_int i = (if i < 0 then ''-'' @ str_nat (nat (- i)) else str_nat (nat i))"

text \<open>
  The document fetcher is the parameter \<open>fetch_html\<close>, from an address to a parsed
  document: \<^verbatim>\<open>fetch_html\<close> catches its request errors and answers with an empty document.
\<close>

definition empty_document :: node where
  "empty_document = Tag ''[document]'' [] []"

definition is_post :: "node \<Rightarrow> bool" where
  "is_post = tag_having ''div'' [''data-num'', ''data-autor'']"

definition get_posts_from_page :: "(string \<Rightarrow> node) \<Rightarrow> string \<Rightarrow> string \<Rightarrow> int \<Rightarrow> node list" where
  "get_posts_from_page fetch_html game_thread author_id page =
     find_all is_post (fetch_html (game_thread @ ''?u='' @ author_id @ ''&pagina='' @ str_int page))"

section \<open>Post classifier (stage)\<close>

text \<open>
  \<^verbatim>\<open>x[k]\<close> where \<open>x\<close> is the result of a \<^verbatim>\<open>find\<close>: subscripting \<^verbatim>\<open>None\<close> raises
  \<^verbatim>\<open>TypeError\<close>.
\<close>

definition int_item_opt :: "(string \<Rightarrow> int option) \<Rightarrow> node option \<Rightarrow> string \<Rightarrow> py_error + int" where
  "int_item_opt py_int x k = (case x of None \<Rightarrow> Inl TypeError | Some n \<Rightarrow> int_item py_int n k)"

text \<open>
  The \<^verbatim>\<open>for header in headers\<close> loop of \<^verbatim>\<open>parse_stage\<close>. A compiled pattern is the
  predicate "\<^verbatim>\<open>pattern.match(text)\<close> is not \<^verbatim>\<open>None\<close>".
\<close>

fun stage_of_headers ::
  "(string \<Rightarrow> bool) \<Rightarrow> (string \<Rightarrow> bool) \<Rightarrow> (string \<Rightarrow> bool) \<Rightarrow> int \<Rightarrow> int \<Rightarrow> node list
     \<Rightarrow> GameStage option" where
  "stage_of_headers game_end_regex stage_end_regex stage_start_regex pid ts [] = None"
| "stage_of_headers game_end_regex stage_end_regex stage_start_regex pid ts (header # headers) =
     (if game_end_regex (text_of header)
        then Some \<lparr>post_id = pid, game_stage = End, stage_start_time = ts\<rparr>
      else if stage_end_regex (text_of header)
        then Some \<lparr>post_id = pid, game_stage = Night, stage_start_time = ts\<rparr>
      else if stage_start_regex (text_of header)
        then Some \<lparr>post_id = pid, game_stage = Day, stage_start_time = ts\<rparr>
      else stage_of_headers game_end_regex stage_end_regex stage_start_regex pid ts headers)"

definition parse_stage ::
  "(string \<Rightarrow> int option) \<Rightarrow> node \<Rightarrow> (string \<Rightarrow> bool) \<Rightarrow> (string \<Rightarrow> bool) \<Rightarrow> (string \<Rightarrow> bool)
     \<Rightarrow> py_error + GameStage option" where
  "parse_stage py_int post game_end_regex stage_end_regex stage_start_regex =
     (let headers = find_all (is_tag ''h2'') post in
      case int_item py_int post ''data-num'' of
        Inl e \<Rightarrow> Inl e
      | Inr pid \<Rightarrow>
          (case int_item_opt py_int (find_first (tag_having ''span'' [''data-time'']) post)
                  ''data-time'' of
             Inl e \<Rightarrow> Inl e
           | Inr ts \<Rightarrow>
               Inr (stage_of_headers game_end_regex stage_end_regex stage_start_regex
                      pid ts headers)))"

section \<open>Thread scanner\<close>

text \<open>\<^verbatim>\<open>range(n, 0, -1)\<close>: \<open>n, n - 1, ..., 1\<close>, empty when \<open>n < 1\<close>.\<close>

definition range_down :: "int \<Rightarrow> int list" where
  "range_down n = rev [1..n]"

text \<open>
  \<^verbatim>\<open>for x in xs: r = f(x); if r: return r\<close>, the early return shared by the scans; an
  exception raised by \<open>f\<close> leaves the loop. (An object of a plain class is true.)
\<close>

fun first_hit :: "('a \<Rightarrow> py_error + 'r option) \<Rightarrow> 'a list \<Rightarrow> py_error + 'r option" where
  "first_hit f [] = Inr None"
| "first_hit f (x # xs) =
     (case f x of
        Inl e \<Rightarrow> Inl e
      | Inr (Some r) \<Rightarrow> Inr (Some r)
      | Inr None \<Rightarrow> first_hit f xs)"

text \<open>
  The two nested loops: pages from last to first, and on each page
  \<^verbatim>\<open>for post in reversed(posts)\<close>.
\<close>

definition reverse_scan ::
  "(string \<Rightarrow> node) \<Rightarrow> string \<Rightarrow> string \<Rightarrow> int \<Rightarrow> (node \<Rightarrow> py_error + 'r option)
     \<Rightarrow> py_error + 'r option" where
  "reverse_scan fetch_html game_thread author_id pages f =
     first_hit
       (\<lambda>page. first_hit f (rev (get_posts_from_page fetch_html game_thread author_id page)))
       (range_down pages)"

text \<open>
  The patterns of \<^verbatim>\<open>get_game_phase\<close>; the accented i is the two bytes C3 AD. The
  regular-expression engine is the parameter \<open>re_match\<close>: \<open>re_match pattern text\<close> says
  whether \<^verbatim>\<open>re.match(pattern, text)\<close> finds a match.
\<close>

definition game_end_pattern :: string where
  "game_end_pattern = ''^Final de la partida''"

definition stage_end_pattern :: string where
  "stage_end_pattern = ''^Final del d'' @ [char_of (0xC3 :: nat), char_of (0xAD :: nat)] @ ''a [0-9]*''"

definition stage_start_pattern :: string where
  "stage_start_pattern = ''^D'' @ [char_of (0xC3 :: nat), char_of (0xAD :: nat)] @ ''a [0-9]*''"

definition default_stage :: GameStage where
  "default_stage = \<lparr>post_id = 1, game_stage = Night, stage_start_time = 0\<rparr>"

definition gm_parse ::
  "(string \<Rightarrow> int option) \<Rightarrow> (string \<Rightarrow> string \<Rightarrow> bool) \<Rightarrow> node \<Rightarrow> py_error + GameStage option" where
  "gm_parse py_int re_match post =
     parse_stage py_int post (re_match game_end_pattern) (re_match stage_end_pattern)
       (re_match stage_start_pattern)"

definition get_game_phase ::
  "(string \<Rightarrow> int option) \<Rightarrow> (string \<Rightarrow> string \<Rightarrow> bool) \<Rightarrow> (string \<Rightarrow> node) \<Rightarrow> string \<Rightarrow> string
     \<Rightarrow> py_error + GameStage" where
  "get_game_phase py_int re_match fetch_html game_thread game_master =
     (case get_total_pages py_int (fetch_html (game_thread @ ''?u='' @ game_master)) of
        Inl e \<Rightarrow> Inl e
      | Inr gm_pages \<Rightarrow>
          (case reverse_scan fetch_html game_thread game_master gm_pages
                  (gm_parse py_int re_match) of
             Inl e \<Rightarrow> Inl e
           | Inr (Some stage) \<Rightarrow> Inr stage
           | Inr None \<Rightarrow> Inr default_stage))"

text \<open>The \<^verbatim>\<open>for header in headers\<close> loop of \<^verbatim>\<open>get_last_event\<close>.\<close>

fun event_in_headers ::
  "(string \<Rightarrow> int option) \<Rightarrow> (string \<Rightarrow> bool) \<Rightarrow> node \<Rightarrow> node list \<Rightarrow> py_error + int option" where
  "event_in_headers py_int event_regex post [] = Inr None"
| "event_in_headers py_int event_regex post (header # headers) =
     (if event_regex (text_of header)
        then (case int_item py_int post ''data-num'' of Inl e \<Rightarrow> Inl e | Inr i \<Rightarrow> Inr (Some i))
      else event_in_headers py_int event_regex post headers)"

definition get_last_event ::
  "(string \<Rightarrow> int option) \<Rightarrow> (string \<Rightarrow> string \<Rightarrow> bool) \<Rightarrow> (string \<Rightarrow> node) \<Rightarrow> string \<Rightarrow> string
     \<Rightarrow> string \<Rightarrow> py_error + int" where
  "get_last_event py_int re_match fetch_html game_thread bot_id event_regex =
     (case get_total_pages py_int (fetch_html (game_thread @ ''?u='' @ bot_id)) of
        Inl e \<Rightarrow> Inl e
      | Inr bot_pages \<Rightarrow>
          (case reverse_scan fetch_html game_thread bot_id bot_pages
                  (\<lambda>post. event_in_headers py_int (re_match event_regex) post
                             (find_all (is_tag ''h2'') post)) of
             Inl e \<Rightarrow> Inl e
           | Inr (Some i) \<Rightarrow> Inr i
           | Inr None \<Rightarrow> Inr 1))"

section \<open>Post-to-page mapping\<close>

text \<open>
  \<^verbatim>\<open>math.ceil(post_id / 30)\<close>: \<^verbatim>\<open>/\<close> on two integers is the exact quotient rounded to the
  nearest binary64 number, ties to even, and raises \<^verbatim>\<open>OverflowError\<close> when that is beyond
  the largest one; \<^verbatim>\<open>math.ceil\<close> of a float is an exact integer. A float is held as the
  rational number it denotes.
\<close>

text \<open>\<^verbatim>\<open>n.bit_length()\<close> of a positive integer.\<close>

function bits :: "int \<Rightarrow> int" where
  "bits n = (if n \<le> 0 then 0 else 1 + bits (n div 2))"
  by pat_completeness auto
termination
  by (relation "measure nat") auto

declare bits.simps [simp del]

text \<open>For \<open>0 < q\<close>, the exponent \<open>e\<close> with \<open>2\<^sup>e \<le> q < 2\<^sup>e\<^sup>+\<^sup>1\<close>.\<close>

definition ilog2 :: "rat \<Rightarrow> int" where
  "ilog2 q =
     (if 1 \<le> q then bits \<lfloor>q\<rfloor> - 1 else - bits (\<lceil>1 / q\<rceil> - 1))"

definition two_powi :: "int \<Rightarrow> rat" where
  "two_powi e = (if 0 \<le> e then 2 ^ nat e else 1 / 2 ^ nat (- e))"

definition round_half_even :: "rat \<Rightarrow> int" where
  "round_half_even x =
     (let f = \<lfloor>x\<rfloor>; d = x - of_int f
      in if d < 1 / 2 then f else if 1 / 2 < d then f + 1 else if even f then f else f + 1)"

text \<open>
  The spacing of binary64 numbers around \<open>q\<close>: 53 significant bits, and \<open>2\<^sup>-\<^sup>1\<^sup>0\<^sup>7\<^sup>4\<close> in the
  subnormal range.
\<close>

definition ulp :: "rat \<Rightarrow> rat" where
  "ulp q = two_powi (max (ilog2 q - 52) (- 1074))"

definition round_double :: "rat \<Rightarrow> rat" where
  "round_double q =
     (if q = 0 then 0
      else sgn q * of_int (round_half_even (\<bar>q\<bar> / ulp \<bar>q\<bar>)) * ulp \<bar>q\<bar>)"

definition truediv :: "int \<Rightarrow> int \<Rightarrow> py_error + rat" where
  "truediv a b =
     (if b = 0 then Inl ZeroDivisionError
      else let r = round_double (of_int a / of_int b)
           in if 2 ^ 1024 \<le> \<bar>r\<bar> then Inl OverflowError else Inr r)"

definition get_page_number_from_post :: "int \<Rightarrow> py_error + int" where
  "get_page_number_from_post post_ident =
     (case truediv post_ident 30 of Inl e \<Rightarrow> Inl e | Inr r \<Rightarrow> Inr \<lceil>r\<rceil>)"

section \<open>Alive player roster\<close>

text \<open>
  The \<^verbatim>\<open>for post in posts\<close> loop of \<^verbatim>\<open>get_player_list\<close>. \<^verbatim>\<open>post.find('ol')\<close> may be
  \<^verbatim>\<open>None\<close>, and \<^verbatim>\<open>None.find_all\<close> raises \<^verbatim>\<open>AttributeError\<close>. \<^verbatim>\<open>str.lower\<close> and
  \<^verbatim>\<open>str.strip\<close> are the parameters \<open>lower\<close> and \<open>strip\<close>.
\<close>

fun players_of_posts ::
  "(string \<Rightarrow> int option) \<Rightarrow> (string \<Rightarrow> string) \<Rightarrow> (string \<Rightarrow> string) \<Rightarrow> int \<Rightarrow> node list
     \<Rightarrow> py_error + string list" where
  "players_of_posts py_int lower strip start_day_post_id [] = Inr []"
| "players_of_posts py_int lower strip start_day_post_id (post # posts) =
     (case int_item py_int post ''data-num'' of
        Inl e \<Rightarrow> Inl e
      | Inr i \<Rightarrow>
          if i = start_day_post_id
          then (case find_first (is_tag ''ol'') post of
                  None \<Rightarrow> Inl AttributeError
                | Some ol \<Rightarrow>
                    Inr (map (\<lambda>player. strip (lower (text_of player)))
                           (find_all (is_tag ''a'') ol)))
          else players_of_posts py_int lower strip start_day_post_id posts)"

definition get_player_list ::
  "(string \<Rightarrow> int option) \<Rightarrow> (string \<Rightarrow> string) \<Rightarrow> (string \<Rightarrow> string) \<Rightarrow> (string \<Rightarrow> node)
     \<Rightarrow> string \<Rightarrow> int \<Rightarrow> py_error + string list" where
  "get_player_list py_int lower strip fetch_html game_thread start_day_post_id =
     (case get_page_number_from_post start_day_post_id of
        Inl e \<Rightarrow> Inl e
      | Inr page_number \<Rightarrow>
          players_of_posts py_int lower strip start_day_post_id
            (find_all is_post (fetch_html (game_thread @ ''/'' @ str_int page_number))))"

section \<open>Post classifier (action)\<close>

text \<open>\<^verbatim>\<open>post['data-autor'].lower()\<close>: a token list has no \<^verbatim>\<open>lower\<close>.\<close>

definition lower_item :: "(string \<Rightarrow> string) \<Rightarrow> node \<Rightarrow> string \<Rightarrow> py_error + string" where
  "lower_item lower n k =
     (case item n k of
        Inl e \<Rightarrow> Inl e
      | Inr (Str s) \<Rightarrow> Inr (lower s)
      | Inr (Multi ts) \<Rightarrow> Inl AttributeError)"

text \<open>
  The \<^verbatim>\<open>for command in commands\<close> loop, appending to \<open>actions\<close>. The keyword arguments of
  \<^verbatim>\<open>GameAction\<close> are evaluated in the order written: the timestamp, the contents
  (\<^verbatim>\<open>unicodedata.normalize("NFKC", ...)\<close> is the parameter \<open>nfkc\<close>), the author.
\<close>

fun actions_of_commands ::
  "(string \<Rightarrow> int option) \<Rightarrow> (string \<Rightarrow> string) \<Rightarrow> (string \<Rightarrow> string) \<Rightarrow> node \<Rightarrow> int \<Rightarrow> node list
     \<Rightarrow> GameAction list \<Rightarrow> py_error + GameAction list" where
  "actions_of_commands py_int lower nfkc post pid [] actions = Inr actions"
| "actions_of_commands py_int lower nfkc post pid (command # commands) actions =
     (case int_item_opt py_int (find_first (tag_with ''span'' ''class'' [''rd'']) post)
             ''data-time'' of
        Inl e \<Rightarrow> Inl e
      | Inr t \<Rightarrow>
          (case lower_item lower post ''data-autor'' of
             Inl e \<Rightarrow> Inl e
           | Inr a \<Rightarrow>
               actions_of_commands py_int lower nfkc post pid commands
                 (actions @ [\<lparr>action_post_id = pid, post_time = t,
                              contents = nfkc (lower (text_of command)), author = a\<rparr>])))"

text \<open>The \<^verbatim>\<open>for post in posts\<close> loop of \<^verbatim>\<open>get_actions_from_page\<close>.\<close>

fun actions_of_posts ::
  "(string \<Rightarrow> int option) \<Rightarrow> (string \<Rightarrow> string) \<Rightarrow> (string \<Rightarrow> string) \<Rightarrow> int \<Rightarrow> node list
     \<Rightarrow> GameAction list \<Rightarrow> py_error + GameAction list" where
  "actions_of_posts py_int lower nfkc start_from_post [] actions = Inr actions"
| "actions_of_posts py_int lower nfkc start_from_post (post # posts) actions =
     (case int_item py_int post ''data-num'' of
        Inl e \<Rightarrow> Inl e
      | Inr pid \<Rightarrow>
          if pid > start_from_post
          then (case find_first (tag_with ''div'' ''class'' [''post-contents'']) post of
                  None \<Rightarrow> Inl AttributeError
                | Some body \<Rightarrow>
                    (case actions_of_commands py_int lower nfkc post pid
                            (find_all (is_tag ''h4'') body) actions of
                       Inl e \<Rightarrow> Inl e
                     | Inr actions' \<Rightarrow>
                         actions_of_posts py_int lower nfkc start_from_post posts actions'))
          else actions_of_posts py_int lower nfkc start_from_post posts actions)"

definition is_action_post :: "node \<Rightarrow> bool" where
  "is_action_post = tag_with ''div'' ''class'' [''cf post'', ''cf post z'', ''cf post first'']"

definition get_actions_from_page ::
  "(string \<Rightarrow> int option) \<Rightarrow> (string \<Rightarrow> string) \<Rightarrow> (string \<Rightarrow> string) \<Rightarrow> (string \<Rightarrow> node)
     \<Rightarrow> string \<Rightarrow> int \<Rightarrow> int \<Rightarrow> py_error + GameAction list" where
  "get_actions_from_page py_int lower nfkc fetch_html game_thread page_to_scan start_from_post =
     actions_of_posts py_int lower nfkc start_from_post
       (find_all is_action_post (fetch_html (game_thread @ ''/'' @ str_int page_to_scan))) []"

section \<open>The specification's reading of stage classification\<close>

text \<open>
  The three patterns with their variants, in the fixed precedence; the (header, pattern)
  pairs, headers in document order and for each header the patterns in precedence order;
  and the first of these pairs whose pattern matches the header's text.
\<close>

definition precedence ::
  "(string \<Rightarrow> bool) \<Rightarrow> (string \<Rightarrow> bool) \<Rightarrow> (string \<Rightarrow> bool) \<Rightarrow> ((string \<Rightarrow> bool) \<times> Stage) list" where
  "precedence game_end_regex stage_end_regex stage_start_regex =
     [(game_end_regex, End), (stage_end_regex, Night), (stage_start_regex, Day)]"

definition first_matching_pair ::
  "((string \<Rightarrow> bool) \<times> Stage) list \<Rightarrow> node list \<Rightarrow> (node \<times> (string \<Rightarrow> bool) \<times> Stage) option" where
  "first_matching_pair patterns headers =
     find (\<lambda>(header, pattern, kind). pattern (text_of header)) (List.product headers patterns)"

definition stage_event :: "int \<Rightarrow> int \<Rightarrow> node \<times> (string \<Rightarrow> bool) \<times> Stage \<Rightarrow> GameStage" where
  "stage_event pid ts pair =
     \<lparr>post_id = pid, game_stage = snd (snd pair), stage_start_time = ts\<rparr>"

section \<open>The author's history\<close>

text \<open>
  The posts of an author in document order over the pages \<open>1, ..., pages\<close> of the
  author-filtered listing.
\<close>

definition history :: "(string \<Rightarrow> node) \<Rightarrow> string \<Rightarrow> string \<Rightarrow> int \<Rightarrow> node list" where
  "history fetch_html game_thread author_id pages =
     concat (map (get_posts_from_page fetch_html game_thread author_id) [1..pages])"

section \<open>Concrete documents\<close>

text \<open>
  A reading of decimal digit strings for \<open>py_int\<close> (on such strings \<^verbatim>\<open>int\<close> agrees with
  it), and small documents on which the functions are run.
\<close>

fun digits_value :: "int \<Rightarrow> string \<Rightarrow> int option" where
  "digits_value acc [] = Some acc"
| "digits_value acc (c # cs) =
     (let k = of_char c :: int
      in if 48 \<le> k \<and> k \<le> 57 then digits_value (10 * acc + (k - 48)) cs else None)"

definition ascii_int :: "string \<Rightarrow> int option" where
  "ascii_int s = (if s = [] then None else digits_value 0 s)"

definition link :: "string \<Rightarrow> node" where
  "link s = Tag ''a'' [] [Text s]"

definition nav_panel :: "string list \<Rightarrow> node" where
  "nav_panel labels = Tag ''div'' [(''id'', Str ''bottompanel'')] (map link labels)"

definition document :: "node list \<Rightarrow> node" where
  "document ns = Tag ''[document]'' [] ns"

text \<open>
  Builders for posts as the forum renders them, and \<^verbatim>\<open>re.match\<close> for the patterns that
  occur here: a literal after \<^verbatim>\<open>^\<close>, optionally followed by \<^verbatim>\<open>[0-9]*\<close>, matches
  exactly the texts that start with the literal.
\<close>

definition header :: "string \<Rightarrow> node" where
  "header s = Tag ''h2'' [] [Text s]"

definition stage_post :: "string \<Rightarrow> string \<Rightarrow> string list \<Rightarrow> node" where
  "stage_post num time titles =
     Tag ''div'' [(''data-num'', Str num), (''data-autor'', Str ''master'')]
       (Tag ''span'' [(''data-time'', Str time)] [] # map header titles)"

fun starts_with :: "string \<Rightarrow> string \<Rightarrow> bool" where
  "starts_with [] t = True"
| "starts_with (c # p) [] = False"
| "starts_with (c # p) (d # t) = (c = d \<and> starts_with p t)"

definition anchored_match :: "string \<Rightarrow> string \<Rightarrow> bool" where
  "anchored_match pattern text =
     (let p = (if starts_with ''^'' pattern then drop 1 pattern else pattern);
          lit = (if starts_with (rev ''[0-9]*'') (rev p) then take (length p - 6) p else p)
      in starts_with lit text)"

text \<open>
  A game thread \<^verbatim>\<open>t\<close> whose game master \<^verbatim>\<open>gm\<close> has two pages of posts: the day
  announced at post 5 on the first, the night announced at post 12 on the second.
  \<open>i_acute\<close> is the accented i.
\<close>

definition i_acute :: string where
  "i_acute = [char_of (0xC3 :: nat), char_of (0xAD :: nat)]"

definition gm_page1 :: node where
  "gm_page1 = document
     [stage_post ''2'' ''10'' [''Reglas''], stage_post ''5'' ''50'' [''D'' @ i_acute @ ''a 1''],
      nav_panel [''1'', ''2'', ''Siguiente'']]"

definition gm_page2 :: node where
  "gm_page2 = document
     [stage_post ''12'' ''120'' [''Final del d'' @ i_acute @ ''a 1''], stage_post ''14'' ''140'' [],
      nav_panel [''Anterior'', ''1'', ''2'', ''Siguiente'']]"

definition thread_pages :: "string \<Rightarrow> node" where
  "thread_pages url =
     (if url = ''t?u=gm'' \<or> url = ''t?u=gm&pagina=1'' then gm_page1
      else if url = ''t?u=gm&pagina=2'' then gm_page2
      else empty_document)"

text \<open>
  A bot \<^verbatim>\<open>bot\<close> with one page of posts in the same thread: vote tallies at posts 20 and 26,
  the second a final one.
\<close>

definition bot_page :: node where
  "bot_page = document
     [stage_post ''20'' ''200'' [''Recuento de votos''], stage_post ''23'' ''230'' [],
      stage_post ''26'' ''260'' [''Aviso'', ''Recuento de votos final''],
      stage_post ''29'' ''290'' [''Aviso'']]"

definition bot_pages :: "string \<Rightarrow> node" where
  "bot_pages url =
     (if url = ''t?u=bot'' \<or> url = ''t?u=bot&pagina=1'' then bot_page else empty_document)"

text \<open>
  A post as the thread page renders it, with its command headers; \<^verbatim>\<open>str.lower\<close> on
  ASCII text (where NFKC normalisation changes nothing); and a page of \<^verbatim>\<open>t\<close> with the
  posts 10, 11 and 12.
\<close>

definition action_post :: "string \<Rightarrow> string \<Rightarrow> string \<Rightarrow> string list \<Rightarrow> node" where
  "action_post num time who commands =
     Tag ''div'' [(''class'', Multi [''cf'', ''post'']), (''data-num'', Str num),
                  (''data-autor'', Str who)]
       [Tag ''span'' [(''class'', Multi [''rd'']), (''data-time'', Str time)] [],
        Tag ''div'' [(''class'', Multi [''post-contents''])]
          (map (\<lambda>c. Tag ''h4'' [] [Text c]) commands)]"

definition ascii_lower :: "string \<Rightarrow> string" where
  "ascii_lower s =
     map (\<lambda>c. let k = of_char c :: nat in if 65 \<le> k \<and> k \<le> 90 then char_of (k + 32) else c) s"

definition action_page :: node where
  "action_page = document
     [action_post ''10'' ''1000'' ''Ana'' [''Voto Luis''],
      action_post ''11'' ''1100'' ''Luis'' [''Voto Ana'', ''Desvoto'', ''Voto Eva''],
      action_post ''12'' ''1200'' ''Eva'' []]"

definition action_pages :: "string \<Rightarrow> node" where
  "action_pages url = (if url = ''t/1'' then action_page else empty_document)"

definition number_of :: "node \<Rightarrow> int" where
  "number_of p = (case int_item ascii_int p ''data-num'' of Inr i \<Rightarrow> i | Inl e \<Rightarrow> 0)"

definition time_of :: "node \<Rightarrow> int" where
  "time_of p =
     (case int_item_opt ascii_int (find_first (tag_with ''span'' ''class'' [''rd'']) p)
             ''data-time'' of Inr i \<Rightarrow> i | Inl e \<Rightarrow> 0)"

definition author_of :: "node \<Rightarrow> string" where
  "author_of p = (case lower_item ascii_lower p ''data-autor'' of Inr a \<Rightarrow> a | Inl e \<Rightarrow> [])"

definition contents_of :: "node \<Rightarrow> node" where
  "contents_of p =
     (case find_first (tag_with ''div'' ''class'' [''post-contents'']) p of
        Some b \<Rightarrow> b | None \<Rightarrow> p)"

text \<open>
  Posts that lack an element the functions read: a game master's post with a header and no
  timestamp, a thread post with no content division, and the post 5 with no ordered list;
  and the post 35 with its roster.
\<close>

definition bare_post :: "string \<Rightarrow> string list \<Rightarrow> node" where
  "bare_post num titles =
     Tag ''div'' [(''data-num'', Str num), (''data-autor'', Str ''master'')] (map header titles)"

definition untimed_pages :: "string \<Rightarrow> node" where
  "untimed_pages url =
     (if url = ''t?u=gm'' \<or> url = ''t?u=gm&pagina=1''
      then document [bare_post ''3'' [''D'' @ i_acute @ ''a 1'']]
      else if url = ''t/1''
      then document
             [Tag ''div'' [(''class'', Multi [''cf'', ''post'']), (''data-num'', Str ''4''),
                           (''data-autor'', Str ''Ana'')] [Text ''hola'']]
      else empty_document)"

definition roster_pages :: "string \<Rightarrow> node" where
  "roster_pages url =
     (if url = ''t/1'' then document [bare_post ''4'' [], bare_post ''5'' [''Vivos'']]
      else if url = ''t/2''
      then document
             [Tag ''div'' [(''data-num'', Str ''35''), (''data-autor'', Str ''master'')]
                [Tag ''ol'' [] [Tag ''li'' [] [link ''Ana''], Tag ''li'' [] [link ''Luis'']]]]
      else empty_document)"



definition rules_pages :: "string \<Rightarrow> node" where
  "rules_pages url =
     (if url = ''t?u=gm'' \<or> url = ''t?u=gm&pagina=1''
      then document [bare_post ''3'' [''Reglas'']]
      else empty_document)"

definition mixed_pages :: "string \<Rightarrow> node" where
  "mixed_pages url =
     (if url = ''t/1''
      then document
             [action_post ''11'' ''1100'' ''Luis'' [''Voto Ana'', ''Desvoto'', ''Voto Eva''],
              Tag ''div'' [(''class'', Multi [''cf'', ''post'']), (''data-num'', Str ''12''),
                           (''data-autor'', Str ''Eva'')] [Text ''hola'']]
      else empty_document)"

section \<open>Properties\<close>

subsection \<open>Pagination resolver\<close>

text \<open>
  C8. \<^verbatim>\<open>get_total_pages\<close> never raises. It returns the text of the second-to-last link of
  the navigation panel read as an integer, and 1 when the panel is absent, when the panel
  has fewer than two links, or when that text is no integer.
\<close>

theorem get_total_pages_total:
  "get_total_pages py_int html =
     Inr (case find_first (tag_with ''div'' ''id'' [''bottompanel'']) html of
            None \<Rightarrow> 1
          | Some panel \<Rightarrow>
              (let links = find_all (is_tag ''a'') panel
               in if length links < 2 then 1
                  else (case py_int (text_of (links ! (length links - 2))) of
                          None \<Rightarrow> 1 | Some i \<Rightarrow> i)))"
  by (simp add: get_total_pages_def total_pages_body_def second_to_last_def Let_def
      split: option.splits)

theorem get_total_pages_total_witness:
  "get_total_pages ascii_int (document [nav_panel [''1'', ''2'', ''7'', ''Siguiente'']]) = Inr 7
   \<and> get_total_pages ascii_int (document [nav_panel [''1'', ''x'', ''Siguiente'']]) = Inr 1
   \<and> get_total_pages ascii_int (document [nav_panel [''7'']]) = Inr 1
   \<and> get_total_pages ascii_int (document []) = Inr 1"
  unfolding get_total_pages_total by code_simp

subsection \<open>Stage classification\<close>

lemma stage_of_headers_first_pair:
  "stage_of_headers ge se ss pid ts headers =
     map_option (stage_event pid ts) (first_matching_pair (precedence ge se ss) headers)"
  by (induction headers) (simp_all add: first_matching_pair_def precedence_def stage_event_def)

lemma first_pair_none:
  "(\<forall>h \<in> set headers. \<not> ge (text_of h) \<and> \<not> se (text_of h) \<and> \<not> ss (text_of h))
   \<Longrightarrow> first_matching_pair (precedence ge se ss) headers = None"
  by (induction headers) (simp_all add: first_matching_pair_def precedence_def)

lemma stage_of_headers_end:
  "find (\<lambda>h. ge (text_of h) \<or> se (text_of h) \<or> ss (text_of h)) headers = Some h
   \<Longrightarrow> ge (text_of h)
   \<Longrightarrow> stage_of_headers ge se ss pid ts headers
       = Some \<lparr>post_id = pid, game_stage = End, stage_start_time = ts\<rparr>"
  by (induction headers) (auto split: if_splits)

text \<open>
  C2. For every post, \<^verbatim>\<open>parse_stage\<close> first reads the identifier and the timestamp (and
  raises where one of them is missing or no number); it then returns the event of the
  first matching (header, pattern) pair, headers in document order and the patterns in the
  order end of game, end of stage, start of stage. So when the first header that matches
  any pattern matches the end-of-game pattern, the event is End, whatever else that header
  matches; and a post with no matching header yields no event.
\<close>

theorem parse_stage_precedence:
  "parse_stage py_int post ge se ss =
     (case int_item py_int post ''data-num'' of
        Inl e \<Rightarrow> Inl e
      | Inr pid \<Rightarrow>
          (case int_item_opt py_int (find_first (tag_having ''span'' [''data-time'']) post)
                  ''data-time'' of
             Inl e \<Rightarrow> Inl e
           | Inr ts \<Rightarrow>
               Inr (map_option (stage_event pid ts)
                      (first_matching_pair (precedence ge se ss)
                         (find_all (is_tag ''h2'') post)))))
   \<and> (\<forall>h pid ts.
         int_item py_int post ''data-num'' = Inr pid
         \<and> int_item_opt py_int (find_first (tag_having ''span'' [''data-time'']) post)
               ''data-time'' = Inr ts
         \<and> find (\<lambda>h. ge (text_of h) \<or> se (text_of h) \<or> ss (text_of h))
               (find_all (is_tag ''h2'') post) = Some h
         \<and> ge (text_of h)
         \<longrightarrow> parse_stage py_int post ge se ss
               = Inr (Some \<lparr>post_id = pid, game_stage = End, stage_start_time = ts\<rparr>))
   \<and> ((\<forall>h \<in> set (find_all (is_tag ''h2'') post).
          \<not> ge (text_of h) \<and> \<not> se (text_of h) \<and> \<not> ss (text_of h))
        \<longrightarrow> (\<forall>ev. parse_stage py_int post ge se ss \<noteq> Inr (Some ev)))"
proof (intro conjI allI impI)
  show "parse_stage py_int post ge se ss =
     (case int_item py_int post ''data-num'' of
        Inl e \<Rightarrow> Inl e
      | Inr pid \<Rightarrow>
          (case int_item_opt py_int (find_first (tag_having ''span'' [''data-time'']) post)
                  ''data-time'' of
             Inl e \<Rightarrow> Inl e
           | Inr ts \<Rightarrow>
               Inr (map_option (stage_event pid ts)
                      (first_matching_pair (precedence ge se ss)
                         (find_all (is_tag ''h2'') post)))))"
    by (simp add: parse_stage_def stage_of_headers_first_pair split: sum.splits)
next
  fix h pid ts
  assume "int_item py_int post ''data-num'' = Inr pid
         \<and> int_item_opt py_int (find_first (tag_having ''span'' [''data-time'']) post)
               ''data-time'' = Inr ts
         \<and> find (\<lambda>h. ge (text_of h) \<or> se (text_of h) \<or> ss (text_of h))
               (find_all (is_tag ''h2'') post) = Some h
         \<and> ge (text_of h)"
  then show "parse_stage py_int post ge se ss
               = Inr (Some \<lparr>post_id = pid, game_stage = End, stage_start_time = ts\<rparr>)"
    by (simp add: parse_stage_def stage_of_headers_end)
next
  fix ev
  assume none: "\<forall>h \<in> set (find_all (is_tag ''h2'') post).
          \<not> ge (text_of h) \<and> \<not> se (text_of h) \<and> \<not> ss (text_of h)"
  show "parse_stage py_int post ge se ss \<noteq> Inr (Some ev)"
    using first_pair_none [OF none]
    by (simp add: parse_stage_def stage_of_headers_first_pair split: sum.splits)
qed

theorem parse_stage_precedence_witness:
  "parse_stage ascii_int (stage_post ''7'' ''100'' [''Reglas'', ''Final de la partida''])
       (starts_with ''Final'') (starts_with ''Final del'') (starts_with ''Fin'')
     = Inr (Some \<lparr>post_id = 7, game_stage = End, stage_start_time = 100\<rparr>)
   \<and> (\<forall>ev. parse_stage ascii_int (stage_post ''8'' ''100'' [''Reglas''])
               (starts_with ''Final'') (starts_with ''Final del'') (starts_with ''Fin'')
             \<noteq> Inr (Some ev))"
proof -
  let ?p = "stage_post ''7'' ''100'' [''Reglas'', ''Final de la partida'']"
  let ?q = "stage_post ''8'' ''100'' [''Reglas'']"
  let ?ge = "starts_with ''Final''" and ?se = "starts_with ''Final del''"
    and ?ss = "starts_with ''Fin''"
  have a: "int_item ascii_int ?p ''data-num'' = Inr 7"
    by code_simp
  have b: "int_item_opt ascii_int (find_first (tag_having ''span'' [''data-time'']) ?p)
             ''data-time'' = Inr 100"
    by code_simp
  have c: "find (\<lambda>h. ?ge (text_of h) \<or> ?se (text_of h) \<or> ?ss (text_of h))
             (find_all (is_tag ''h2'') ?p) = Some (header ''Final de la partida'')"
    by code_simp
  have d: "?ge (text_of (header ''Final de la partida''))
           \<and> ?ss (text_of (header ''Final de la partida''))"
    by code_simp
  have e: "\<forall>h \<in> set (find_all (is_tag ''h2'') ?q).
             \<not> ?ge (text_of h) \<and> \<not> ?se (text_of h) \<and> \<not> ?ss (text_of h)"
    by code_simp
  from parse_stage_precedence [of ascii_int ?p ?ge ?se ?ss] a b c d
  have first: "parse_stage ascii_int ?p ?ge ?se ?ss
                 = Inr (Some \<lparr>post_id = 7, game_stage = End, stage_start_time = 100\<rparr>)"
    by blast
  from parse_stage_precedence [of ascii_int ?q ?ge ?se ?ss] e
  have second: "\<forall>ev. parse_stage ascii_int ?q ?ge ?se ?ss \<noteq> Inr (Some ev)"
    by blast
  from first second show ?thesis by blast
qed

subsection \<open>The reverse scan\<close>

lemma first_hit_append:
  "first_hit f (xs @ ys) =
     (case first_hit f xs of Inr None \<Rightarrow> first_hit f ys | r \<Rightarrow> r)"
  by (induction xs) (auto split: sum.splits option.splits)

lemma first_hit_concat:
  "first_hit (\<lambda>x. first_hit f (g x)) xs = first_hit f (concat (map g xs))"
  by (induction xs) (auto simp: first_hit_append split: sum.splits option.splits)

lemma reverse_scan_history:
  "reverse_scan fetch_html game_thread author_id pages f =
     first_hit f (rev (history fetch_html game_thread author_id pages))"
  by (simp add: reverse_scan_def history_def range_down_def first_hit_concat rev_concat
      rev_map o_def)

lemma first_hit_none:
  "(\<forall>x \<in> set xs. f x = Inr None) \<Longrightarrow> first_hit f xs = Inr None"
  by (induction xs) auto


subsection \<open>Current game phase\<close>

lemma thread_pages_history:
  "history thread_pages ''t'' ''gm'' 2 =
     [stage_post ''2'' ''10'' [''Reglas''], stage_post ''5'' ''50'' [''D'' @ i_acute @ ''a 1''],
      stage_post ''12'' ''120'' [''Final del d'' @ i_acute @ ''a 1''], stage_post ''14'' ''140'' []]"
  by code_simp




lemma get_game_phase_default:
  assumes "get_total_pages py_int (fetch_html (game_thread @ ''?u='' @ game_master)) = Inr pages"
    and "\<forall>p \<in> set (history fetch_html game_thread game_master pages).
           gm_parse py_int re_match p = Inr None"
  shows "get_game_phase py_int re_match fetch_html game_thread game_master
           = Inr \<lparr>post_id = 1, game_stage = Night, stage_start_time = 0\<rparr>"
  using assms(1) first_hit_none [of "rev (history fetch_html game_thread game_master pages)"
      "gm_parse py_int re_match"] assms(2)
  by (simp add: get_game_phase_def reverse_scan_history default_stage_def)

text \<open>
  C6. The claim is that a history in which no post classifies gives the default event.
  It does for a game master without posts, and whenever \<^verbatim>\<open>parse_stage\<close> returns
  \<^verbatim>\<open>None\<close> on every post (the lemma above). A post whose only header is no announcement
  and that has no timestamp does not classify either, and there \<^verbatim>\<open>get_game_phase\<close>
  raises \<^verbatim>\<open>TypeError\<close> instead of returning the default.
\<close>

theorem get_game_phase_no_default:
  "history rules_pages ''t'' ''gm'' 1 = [bare_post ''3'' [''Reglas'']]
   \<and> first_matching_pair
       (precedence (anchored_match game_end_pattern) (anchored_match stage_end_pattern)
          (anchored_match stage_start_pattern))
       (find_all (is_tag ''h2'') (bare_post ''3'' [''Reglas''])) = None
   \<and> get_game_phase ascii_int anchored_match rules_pages ''t'' ''gm'' = Inl TypeError
   \<and> get_game_phase ascii_int anchored_match (\<lambda>url. empty_document) ''t'' ''gm''
     = Inr \<lparr>post_id = 1, game_stage = Night, stage_start_time = 0\<rparr>"
  by code_simp

subsection \<open>Last occurrence of an event\<close>

lemma event_in_headers_any:
  "event_in_headers py_int event_regex post headers =
     (if \<exists>h \<in> set headers. event_regex (text_of h)
      then (case int_item py_int post ''data-num'' of Inl e \<Rightarrow> Inl e | Inr i \<Rightarrow> Inr (Some i))
      else Inr None)"
  by (induction headers) auto

lemma first_hit_find:
  assumes "\<And>x. f x = (if P x then (case g x of Inl e \<Rightarrow> Inl e | Inr i \<Rightarrow> Inr (Some i))
                       else Inr None)"
  shows "first_hit f xs =
           (case find P xs of
              None \<Rightarrow> Inr None
            | Some x \<Rightarrow> (case g x of Inl e \<Rightarrow> Inl e | Inr i \<Rightarrow> Inr (Some i)))"
  by (induction xs) (auto simp: assms split: sum.splits)

text \<open>
  C7. \<^verbatim>\<open>get_last_event\<close> scans the author's pages from last to first and the posts of each
  page from last to first, and returns the identifier of the first post met that has a
  header matching the regular expression (the integer read from its \<^verbatim>\<open>data-num\<close>), and 1
  when no post of the history has one.
\<close>

theorem get_last_event_first_match:
  assumes "get_total_pages py_int (fetch_html (game_thread @ ''?u='' @ bot_id)) = Inr pages"
  shows "get_last_event py_int re_match fetch_html game_thread bot_id event_regex =
           (case find (\<lambda>post. \<exists>h \<in> set (find_all (is_tag ''h2'') post).
                                 re_match event_regex (text_of h))
                   (rev (history fetch_html game_thread bot_id pages)) of
              None \<Rightarrow> Inr 1
            | Some post \<Rightarrow> int_item py_int post ''data-num'')"
proof -
  let ?P = "\<lambda>post. \<exists>h \<in> set (find_all (is_tag ''h2'') post). re_match event_regex (text_of h)"
  let ?f = "\<lambda>post. event_in_headers py_int (re_match event_regex) post
                      (find_all (is_tag ''h2'') post)"
  have "first_hit ?f (rev (history fetch_html game_thread bot_id pages)) =
          (case find ?P (rev (history fetch_html game_thread bot_id pages)) of
             None \<Rightarrow> Inr None
           | Some x \<Rightarrow> (case int_item py_int x ''data-num'' of
                          Inl e \<Rightarrow> Inl e | Inr i \<Rightarrow> Inr (Some i)))"
    by (rule first_hit_find) (simp add: event_in_headers_any)
  with assms show ?thesis
    by (simp add: get_last_event_def reverse_scan_history split: option.splits sum.splits)
qed

theorem get_last_event_first_match_witness:
  "get_last_event ascii_int anchored_match thread_pages ''t'' ''gm'' (''^D'' @ i_acute @ ''a'')
     = Inr 5
   \<and> get_last_event ascii_int anchored_match thread_pages ''t'' ''gm'' ''^Final del'' = Inr 12
   \<and> get_last_event ascii_int anchored_match thread_pages ''t'' ''gm'' ''^Reglas'' = Inr 2
   \<and> get_last_event ascii_int anchored_match thread_pages ''t'' ''gm'' ''^Recuento'' = Inr 1
   \<and> get_last_event ascii_int anchored_match bot_pages ''t'' ''bot'' ''^Recuento de votos''
     = Inr 26"
proof -
  have a: "get_total_pages ascii_int (thread_pages (''t'' @ ''?u='' @ ''gm'')) = Inr 2"
    by code_simp
  have b: "get_total_pages ascii_int (bot_pages (''t'' @ ''?u='' @ ''bot'')) = Inr 1"
    by code_simp
  have c: "history bot_pages ''t'' ''bot'' 1 =
     [stage_post ''20'' ''200'' [''Recuento de votos''], stage_post ''23'' ''230'' [],
      stage_post ''26'' ''260'' [''Aviso'', ''Recuento de votos final''],
      stage_post ''29'' ''290'' [''Aviso'']]"
    by code_simp
  show ?thesis
    unfolding get_last_event_first_match
        [where fetch_html = thread_pages and game_thread = "''t''" and bot_id = "''gm''", OF a]
      get_last_event_first_match
        [where fetch_html = bot_pages and game_thread = "''t''" and bot_id = "''bot''", OF b]
      thread_pages_history c
    by code_simp
qed

subsection \<open>Action extraction\<close>

lemma actions_of_commands_ok:
  assumes "int_item_opt py_int (find_first (tag_with ''span'' ''class'' [''rd'']) post)
             ''data-time'' = Inr t"
    and "lower_item lower post ''data-autor'' = Inr a"
  shows "actions_of_commands py_int lower nfkc post pid commands actions =
           Inr (actions @ map (\<lambda>command. \<lparr>action_post_id = pid, post_time = t,
                   contents = nfkc (lower (text_of command)), author = a\<rparr>) commands)"
  using assms by (induction commands arbitrary: actions) simp_all

lemma actions_of_commands_nil:
  "actions_of_commands py_int lower nfkc post pid [] actions = Inr actions"
  by simp

lemma actions_of_posts_ok:
  assumes "\<forall>p \<in> set posts. int_item py_int p ''data-num'' = Inr (num p)"
    and "\<forall>p \<in> set posts. start < num p \<longrightarrow>
           find_first (tag_with ''div'' ''class'' [''post-contents'']) p = Some (body p)"
    and "\<forall>p \<in> set posts. start < num p \<and> find_all (is_tag ''h4'') (body p) \<noteq> [] \<longrightarrow>
           int_item_opt py_int (find_first (tag_with ''span'' ''class'' [''rd'']) p)
             ''data-time'' = Inr (time p)
           \<and> lower_item lower p ''data-autor'' = Inr (auth p)"
  shows "actions_of_posts py_int lower nfkc start posts actions =
           Inr (actions @ concat (map (\<lambda>p. map (\<lambda>command.
                   \<lparr>action_post_id = num p, post_time = time p,
                    contents = nfkc (lower (text_of command)), author = auth p\<rparr>)
                 (find_all (is_tag ''h4'') (body p)))
               (filter (\<lambda>p. start < num p) posts)))"
  using assms
proof (induction posts arbitrary: actions)
  case Nil
  then show ?case by simp
next
  case (Cons p posts)
  have rest: "\<And>acc. actions_of_posts py_int lower nfkc start posts acc =
           Inr (acc @ concat (map (\<lambda>p. map (\<lambda>command.
                   \<lparr>action_post_id = num p, post_time = time p,
                    contents = nfkc (lower (text_of command)), author = auth p\<rparr>)
                 (find_all (is_tag ''h4'') (body p)))
               (filter (\<lambda>p. start < num p) posts)))"
    using Cons.IH Cons.prems by simp
  have n: "int_item py_int p ''data-num'' = Inr (num p)"
    using Cons.prems(1) by simp
  show ?case
  proof (cases "start < num p")
    case False
    with n rest show ?thesis by simp
  next
    case True
    then have b: "find_first (tag_with ''div'' ''class'' [''post-contents'']) p = Some (body p)"
      using Cons.prems(2) by simp
    show ?thesis
    proof (cases "find_all (is_tag ''h4'') (body p) = []")
      case True
      with \<open>start < num p\<close> n b rest show ?thesis by simp
    next
      case False
      with \<open>start < num p\<close> Cons.prems(3)
      have "int_item_opt py_int (find_first (tag_with ''span'' ''class'' [''rd'']) p)
              ''data-time'' = Inr (time p)"
        and "lower_item lower p ''data-autor'' = Inr (auth p)"
        by simp_all
      from actions_of_commands_ok [OF this] \<open>start < num p\<close> n b rest show ?thesis
        by simp
    qed
  qed
qed

text \<open>
  On a page whose selected posts have a numeric identifier and, the qualifying ones, a
  content division (and a timestamp and an author where they hold a command),
  \<^verbatim>\<open>get_actions_from_page\<close> returns, for the qualifying posts in document order, one
  record per command header of the content: the post's identifier, its timestamp, the
  header's text lowercased and then NFKC-normalised, and the lowercased author.
\<close>

lemma get_actions_from_page_records:
  assumes "\<forall>p \<in> set (find_all is_action_post
                       (fetch_html (game_thread @ ''/'' @ str_int page_to_scan))).
             int_item py_int p ''data-num'' = Inr (num p)"
    and "\<forall>p \<in> set (find_all is_action_post
                       (fetch_html (game_thread @ ''/'' @ str_int page_to_scan))).
           start_from_post < num p \<longrightarrow>
           find_first (tag_with ''div'' ''class'' [''post-contents'']) p = Some (body p)"
    and "\<forall>p \<in> set (find_all is_action_post
                       (fetch_html (game_thread @ ''/'' @ str_int page_to_scan))).
           start_from_post < num p \<and> find_all (is_tag ''h4'') (body p) \<noteq> [] \<longrightarrow>
           int_item_opt py_int (find_first (tag_with ''span'' ''class'' [''rd'']) p)
             ''data-time'' = Inr (time p)
           \<and> lower_item lower p ''data-autor'' = Inr (auth p)"
  shows "get_actions_from_page py_int lower nfkc fetch_html game_thread page_to_scan
           start_from_post =
           Inr (concat (map (\<lambda>p. map (\<lambda>command.
                   \<lparr>action_post_id = num p, post_time = time p,
                    contents = nfkc (lower (text_of command)), author = auth p\<rparr>)
                 (find_all (is_tag ''h4'') (body p)))
               (filter (\<lambda>p. start_from_post < num p)
                  (find_all is_action_post
                     (fetch_html (game_thread @ ''/'' @ str_int page_to_scan))))))"
  using actions_of_posts_ok [OF assms, of nfkc "[]"]
  by (simp add: get_actions_from_page_def)

lemma get_actions_from_page_records_run:
  "get_actions_from_page ascii_int ascii_lower (\<lambda>s. s) action_pages ''t'' 1 10 =
     Inr [\<lparr>action_post_id = 11, post_time = 1100, contents = ''voto ana'', author = ''luis''\<rparr>,
          \<lparr>action_post_id = 11, post_time = 1100, contents = ''desvoto'', author = ''luis''\<rparr>,
          \<lparr>action_post_id = 11, post_time = 1100, contents = ''voto eva'', author = ''luis''\<rparr>]"
proof -
  have posts: "find_all is_action_post (action_pages (''t'' @ ''/'' @ str_int 1)) =
     [action_post ''10'' ''1000'' ''Ana'' [''Voto Luis''],
      action_post ''11'' ''1100'' ''Luis'' [''Voto Ana'', ''Desvoto'', ''Voto Eva''],
      action_post ''12'' ''1200'' ''Eva'' []]"
    by code_simp
  have a: "\<forall>p \<in> set (find_all is_action_post (action_pages (''t'' @ ''/'' @ str_int 1))).
             int_item ascii_int p ''data-num'' = Inr (number_of p)"
    unfolding posts by code_simp
  have b: "\<forall>p \<in> set (find_all is_action_post (action_pages (''t'' @ ''/'' @ str_int 1))).
             10 < number_of p \<longrightarrow>
             find_first (tag_with ''div'' ''class'' [''post-contents'']) p = Some (contents_of p)"
    unfolding posts by code_simp
  have c: "\<forall>p \<in> set (find_all is_action_post (action_pages (''t'' @ ''/'' @ str_int 1))).
             10 < number_of p \<and> find_all (is_tag ''h4'') (contents_of p) \<noteq> [] \<longrightarrow>
             int_item_opt ascii_int (find_first (tag_with ''span'' ''class'' [''rd'']) p)
               ''data-time'' = Inr (time_of p)
             \<and> lower_item ascii_lower p ''data-autor'' = Inr (author_of p)"
    unfolding posts by code_simp
  show ?thesis
    unfolding get_actions_from_page_records
        [where fetch_html = action_pages and game_thread = "''t''" and page_to_scan = 1
           and py_int = ascii_int and lower = ascii_lower and num = number_of
           and body = contents_of and time = time_of and auth = author_of
           and start_from_post = 10, OF a b c] posts
    by code_simp
qed

text \<open>
  C9. The claim is that every qualifying post yields one record per command header. On
  a page whose selected posts are all well formed it does (the lemma above). The records
  are only returned once the whole page is read: with the three commands of post 11
  followed by a post 12 that has no content division, \<^verbatim>\<open>get_actions_from_page\<close> raises
  \<^verbatim>\<open>AttributeError\<close> and post 11 yields nothing.
\<close>

theorem get_actions_from_page_loses_records:
  "find_all is_action_post (mixed_pages (''t'' @ ''/'' @ str_int 1)) =
     [action_post ''11'' ''1100'' ''Luis'' [''Voto Ana'', ''Desvoto'', ''Voto Eva''],
      Tag ''div'' [(''class'', Multi [''cf'', ''post'']), (''data-num'', Str ''12''),
                   (''data-autor'', Str ''Eva'')] [Text ''hola'']]
   \<and> length (find_all (is_tag ''h4'')
         (contents_of (action_post ''11'' ''1100'' ''Luis''
            [''Voto Ana'', ''Desvoto'', ''Voto Eva'']))) = 3
   \<and> get_actions_from_page ascii_int ascii_lower (\<lambda>s. s) mixed_pages ''t'' 1 10
     = Inl AttributeError"
  by code_simp

lemma actions_of_commands_ids:
  "actions_of_commands py_int lower nfkc post pid commands actions = Inr res
   \<Longrightarrow> \<forall>a \<in> set actions. Q (action_post_id a) \<Longrightarrow> Q pid
   \<Longrightarrow> \<forall>a \<in> set res. Q (action_post_id a)"
proof (induction commands arbitrary: actions)
  case Nil
  then show ?case by simp
next
  case (Cons command commands)
  from Cons.prems(1) obtain t a where
    "actions_of_commands py_int lower nfkc post pid commands
       (actions @ [\<lparr>action_post_id = pid, post_time = t,
                    contents = nfkc (lower (text_of command)), author = a\<rparr>]) = Inr res"
    by (auto split: sum.splits)
  from Cons.IH [OF this] Cons.prems(2,3) show ?case by simp
qed

lemma actions_of_posts_ids:
  "actions_of_posts py_int lower nfkc start posts actions = Inr res
   \<Longrightarrow> \<forall>a \<in> set actions. start < action_post_id a \<and> R (action_post_id a)
   \<Longrightarrow> \<forall>p \<in> set posts. \<forall>i. int_item py_int p ''data-num'' = Inr i \<longrightarrow> R i
   \<Longrightarrow> \<forall>a \<in> set res. start < action_post_id a \<and> R (action_post_id a)"
proof (induction posts arbitrary: actions)
  case Nil
  then show ?case by simp
next
  case (Cons p posts)
  from Cons.prems(1) obtain pid where pid: "int_item py_int p ''data-num'' = Inr pid"
    by (auto split: sum.splits)
  with Cons.prems(3) have r: "R pid" by simp
  from Cons.prems(3) have tl: "\<forall>p \<in> set posts. \<forall>i. int_item py_int p ''data-num'' = Inr i \<longrightarrow> R i"
    by simp
  show ?case
  proof (cases "start < pid")
    case False
    with pid Cons.prems(1)
    have "actions_of_posts py_int lower nfkc start posts actions = Inr res" by simp
    from Cons.IH [OF this Cons.prems(2) tl] show ?thesis .
  next
    case True
    with pid Cons.prems(1) obtain b acc where
      step: "actions_of_commands py_int lower nfkc p pid (find_all (is_tag ''h4'') b) actions
               = Inr acc"
      and rest: "actions_of_posts py_int lower nfkc start posts acc = Inr res"
      by (auto split: option.splits sum.splits)
    from actions_of_commands_ids [OF step, of "\<lambda>i. start < i \<and> R i"] Cons.prems(2) True r
    have "\<forall>a \<in> set acc. start < action_post_id a \<and> R (action_post_id a)" by simp
    from Cons.IH [OF rest this tl] show ?thesis .
  qed
qed

text \<open>
  C10. Every record that \<^verbatim>\<open>get_actions_from_page\<close> returns carries an identifier strictly
  greater than \<open>start_from_post\<close>, and that identifier is the number of a selected post:
  the boundary post and the posts before it contribute nothing.
\<close>

theorem get_actions_from_page_after_boundary:
  assumes "get_actions_from_page py_int lower nfkc fetch_html game_thread page_to_scan
             start_from_post = Inr actions"
  shows "\<forall>a \<in> set actions.
           start_from_post < action_post_id a
           \<and> (\<exists>p \<in> set (find_all is_action_post
                           (fetch_html (game_thread @ ''/'' @ str_int page_to_scan))).
                 int_item py_int p ''data-num'' = Inr (action_post_id a))"
  using actions_of_posts_ids [of py_int lower nfkc start_from_post
      "find_all is_action_post (fetch_html (game_thread @ ''/'' @ str_int page_to_scan))"
      "[]" actions
      "\<lambda>i. \<exists>p \<in> set (find_all is_action_post
                        (fetch_html (game_thread @ ''/'' @ str_int page_to_scan))).
              int_item py_int p ''data-num'' = Inr i"] assms
  by (auto simp: get_actions_from_page_def)

theorem get_actions_from_page_after_boundary_witness:
  "get_actions_from_page ascii_int ascii_lower (\<lambda>s. s) action_pages ''t'' 1 10 =
     Inr [\<lparr>action_post_id = 11, post_time = 1100, contents = ''voto ana'', author = ''luis''\<rparr>,
          \<lparr>action_post_id = 11, post_time = 1100, contents = ''desvoto'', author = ''luis''\<rparr>,
          \<lparr>action_post_id = 11, post_time = 1100, contents = ''voto eva'', author = ''luis''\<rparr>]
   \<and> list_all (\<lambda>a. 10 < action_post_id a)
        [\<lparr>action_post_id = 11, post_time = 1100, contents = ''voto ana'', author = ''luis''\<rparr>,
         \<lparr>action_post_id = 11, post_time = 1100, contents = ''desvoto'', author = ''luis''\<rparr>,
         \<lparr>action_post_id = 11, post_time = 1100, contents = ''voto eva'', author = ''luis''\<rparr>]"
proof -
  have a: "get_actions_from_page ascii_int ascii_lower (\<lambda>s. s) action_pages ''t'' 1 10 =
     Inr [\<lparr>action_post_id = 11, post_time = 1100, contents = ''voto ana'', author = ''luis''\<rparr>,
          \<lparr>action_post_id = 11, post_time = 1100, contents = ''desvoto'', author = ''luis''\<rparr>,
          \<lparr>action_post_id = 11, post_time = 1100, contents = ''voto eva'', author = ''luis''\<rparr>]"
    by code_simp
  from get_actions_from_page_after_boundary [OF a] a show ?thesis
    unfolding list_all_iff by blast
qed

subsection \<open>Post-to-page mapping\<close>

lemma bits_nonneg: "0 \<le> bits n"
  by (induction n rule: bits.induct) (subst bits.simps, simp)

lemma bits_pos: "0 < n \<Longrightarrow> 1 \<le> bits n"
  using bits_nonneg [of "n div 2"] by (subst bits.simps) simp

lemma bits_le: "n < 2 ^ k \<Longrightarrow> bits n \<le> int k"
proof (induction k arbitrary: n)
  case 0
  then show ?case by (subst bits.simps) simp
next
  case (Suc k)
  show ?case
  proof (cases "n \<le> 0")
    case True
    then show ?thesis by (subst bits.simps) simp
  next
    case False
    from Suc.prems have "n div 2 < 2 ^ k" by simp
    from Suc.IH [OF this] False show ?thesis by (subst bits.simps) simp
  qed
qed

lemma ilog2_le:
  assumes "0 < q" and "q < 2 ^ k"
  shows "ilog2 q \<le> int k - 1"
proof (cases "1 \<le> q")
  case True
  from assms(2) have "\<lfloor>q\<rfloor> < 2 ^ k" by (simp add: floor_less_iff)
  from bits_le [OF this] True show ?thesis by (simp add: ilog2_def)
next
  case False
  with assms(1) have "1 < 1 / q" by simp
  then have "1 < \<lceil>1 / q\<rceil>" by (simp add: less_ceiling_iff)
  then have "1 \<le> bits (\<lceil>1 / q\<rceil> - 1)" by (intro bits_pos) simp
  with False show ?thesis by (simp add: ilog2_def)
qed

lemma round_half_even_error: "\<bar>of_int (round_half_even x) - x\<bar> \<le> 1 / 2"
proof -
  have "of_int \<lfloor>x\<rfloor> \<le> x" and "x < of_int \<lfloor>x\<rfloor> + 1" by linarith+
  then show ?thesis by (auto simp: round_half_even_def Let_def)
qed

lemma round_half_even_int: "round_half_even (of_int k) = k"
  by (simp add: round_half_even_def)

lemma ulp_small:
  assumes "0 < q" and "q < 2 ^ k" and "k \<le> 52"
  shows "\<exists>m. ulp q = 1 / 2 ^ m \<and> 53 \<le> m + k"
proof -
  from ilog2_le [OF assms(1,2)] assms(3)
  have e: "max (ilog2 q - 52) (- 1074) \<le> int k - 53" by simp
  with assms(3) have "ulp q = 1 / 2 ^ nat (- max (ilog2 q - 52) (- 1074))"
    by (simp add: ulp_def two_powi_def)
  moreover from e have "53 \<le> nat (- max (ilog2 q - 52) (- 1074)) + k" by linarith
  ultimately show ?thesis by blast
qed

lemma round_double_exact:
  assumes "0 < k" and "k \<le> 2 ^ 49"
  shows "round_double (of_int k) = of_int k"
proof -
  have "(of_int k :: rat) \<le> of_int (2 ^ 49)" using assms(2) by (simp only: of_int_le_iff)
  then have "(of_int k :: rat) < 2 ^ 50" by simp
  moreover have pos: "(0 :: rat) < of_int k" using assms(1) by simp
  ultimately obtain m where m: "ulp (of_int k) = 1 / 2 ^ m"
    using ulp_small [of "of_int k" 50] by auto
  have "(of_int k :: rat) / (1 / 2 ^ m) = of_int (k * 2 ^ m)" by simp
  then have "round_half_even (of_int k / (1 / 2 ^ m)) = k * 2 ^ m"
    by (simp only: round_half_even_int)
  with pos m show ?thesis by (simp add: round_double_def)
qed

lemma round_double_near:
  assumes "0 < q" and "q < 2 ^ 49"
  shows "\<bar>round_double q - q\<bar> \<le> 1 / 32"
proof -
  obtain m where m: "ulp q = 1 / 2 ^ m" and "53 \<le> m + 49"
    using ulp_small [OF assms, simplified] by auto
  then have "4 \<le> m" by simp
  then have "(2 :: rat) ^ 4 \<le> 2 ^ m" by (intro power_increasing) simp_all
  then have big: "(16 :: rat) \<le> 2 ^ m" by simp
  let ?u = "1 / (2 :: rat) ^ m"
  have upos: "0 < ?u" by simp
  from big have usmall: "?u \<le> 1 / 16" by (simp add: field_simps)
  have rd: "round_double q = of_int (round_half_even (q / ?u)) * ?u"
    using assms(1) by (simp add: round_double_def m)
  have "q = q / ?u * ?u" by simp
  then have "round_double q - q = (of_int (round_half_even (q / ?u)) - q / ?u) * ?u"
    unfolding rd by (simp only: left_diff_distrib)
  then have "\<bar>round_double q - q\<bar> = \<bar>of_int (round_half_even (q / ?u)) - q / ?u\<bar> * ?u"
    using upos by (simp add: abs_mult)
  also have "\<dots> \<le> (1 / 2) * ?u"
    using round_half_even_error [of "q / ?u"] upos by (intro mult_right_mono) simp_all
  also have "\<dots> \<le> 1 / 32" using usmall by simp
  finally show ?thesis .
qed

lemma get_page_number_from_post_exact:
  assumes "1 \<le> p" and "p \<le> 30 * 2 ^ 49"
  shows "get_page_number_from_post p = Inr ((p + 29) div 30)"
proof (cases "p mod 30 = 0")
  case True
  define k where "k = p div 30"
  from True have p: "p = 30 * k" unfolding k_def by presburger
  with assms have k: "0 < k" "k \<le> 2 ^ 49" by simp_all
  have q: "(of_int p :: rat) / of_int 30 = of_int k" by (simp add: p)
  have "(of_int k :: rat) \<le> of_int (2 ^ 49)" using k(2) by (simp only: of_int_le_iff)
  then have small: "\<not> (2 :: rat) ^ 1024 \<le> \<bar>of_int k\<bar>" using k(1) by simp
  have "(p + 29) div 30 = k" by (simp add: p)
  with q small round_double_exact [OF k] show ?thesis
    by (simp add: get_page_number_from_post_def truediv_def Let_def)
next
  case False
  define k where "k = p div 30"
  define j where "j = p mod 30"
  have p: "p = 30 * k + j" by (simp add: k_def j_def)
  have j: "1 \<le> j" "j \<le> 29" using False unfolding j_def by presburger+
  from assms p j have k: "0 \<le> k" "k < 2 ^ 49" by simp_all
  define q :: rat where "q = of_int p / of_int 30"
  define r where "r = round_double q"
  have jl: "(1 :: rat) / 30 \<le> of_int j / 30" and ju: "(of_int j :: rat) / 30 \<le> 29 / 30"
    using j by simp_all
  have q: "q = of_int k + of_int j / 30" by (simp add: q_def p)
  have kl: "(0 :: rat) \<le> of_int k" using k(1) by simp
  have "k + 1 \<le> 2 ^ 49" using k(2) by simp
  then have "(of_int (k + 1) :: rat) \<le> of_int (2 ^ 49)" by (simp only: of_int_le_iff)
  then have ku: "(of_int k :: rat) + 1 \<le> 2 ^ 49" by simp
  have qpos: "0 < q" using q jl kl by linarith
  have qlt: "q < 2 ^ 49" using q ju ku by linarith
  from round_double_near [OF qpos qlt]
  have near: "r - q \<le> 1 / 32" "q - r \<le> 1 / 32" unfolding r_def by linarith+
  have "of_int k < r" using near q jl by linarith
  then have lo: "of_int (k + 1) - 1 < r" by simp
  have "r \<le> of_int k + 1" using near q ju by linarith
  then have hi: "r \<le> of_int (k + 1)" by simp
  have c: "\<lceil>r\<rceil> = k + 1" using lo hi by (rule ceiling_unique)
  have "0 < r" using \<open>of_int k < r\<close> kl by linarith
  moreover have "r \<le> 2 ^ 49" using \<open>r \<le> of_int k + 1\<close> ku by linarith
  moreover have "(2 :: rat) ^ 49 < 2 ^ 1024" by (intro power_strict_increasing) simp_all
  ultimately have small: "\<not> (2 :: rat) ^ 1024 \<le> \<bar>r\<bar>" by linarith
  have "(p + 29) div 30 = k + 1" using j by (simp add: p)
  with c small show ?thesis
    unfolding get_page_number_from_post_def truediv_def Let_def r_def q_def by simp
qed

lemma get_page_number_from_post_mono:
  assumes "1 \<le> p" and "p \<le> p'" and "p' \<le> 30 * 2 ^ 49"
  shows "\<exists>a b. get_page_number_from_post p = Inr a \<and> get_page_number_from_post p' = Inr b
                \<and> a \<le> b"
proof -
  have "(p + 29) div 30 \<le> (p' + 29) div 30"
    using assms(2) by (intro zdiv_mono1) simp_all
  with get_page_number_from_post_exact [of p] get_page_number_from_post_exact [of p'] assms
  show ?thesis by simp
qed

text \<open>
  C3. The claim is that the page of post \<open>P\<close> is \<open>\<lceil>P / 30\<rceil>\<close> for every \<open>P \<ge> 1\<close>. The
  function divides in floating point: it agrees with the claim up to \<open>P = 30 \<sqdot> 2\<^sup>4\<^sup>9\<close>
  (the two lemmas above), and at the next identifier the quotient rounds down to \<open>2\<^sup>4\<^sup>9\<close>,
  one page short of \<open>\<lceil>P / 30\<rceil> = 2\<^sup>4\<^sup>9 + 1\<close>.
\<close>

theorem get_page_number_from_post_rounds:
  "get_page_number_from_post (30 * 2 ^ 49 + 1) = Inr (2 ^ 49)
   \<and> \<lceil>(of_int (30 * 2 ^ 49 + 1) :: rat) / 30\<rceil> = 2 ^ 49 + 1"
  by code_simp

subsection \<open>Structural misses\<close>

text \<open>
  C4. The claim is that no operation raises: that every extraction which can fail
  structurally falls back to a default, as \<^verbatim>\<open>get_total_pages\<close> does. \<^verbatim>\<open>parse_stage\<close> has
  no such handler: on a post without the timestamp span it raises \<^verbatim>\<open>TypeError\<close>, and so
  does \<^verbatim>\<open>get_game_phase\<close> on a history holding that post; \<^verbatim>\<open>get_actions_from_page\<close>
  raises \<^verbatim>\<open>AttributeError\<close> on a qualifying post without the content division.
\<close>

theorem extraction_raises:
  "parse_stage ascii_int (bare_post ''3'' [''D'' @ i_acute @ ''a 1''])
       (anchored_match game_end_pattern) (anchored_match stage_end_pattern)
       (anchored_match stage_start_pattern) = Inl TypeError
   \<and> get_game_phase ascii_int anchored_match untimed_pages ''t'' ''gm'' = Inl TypeError
   \<and> get_actions_from_page ascii_int ascii_lower (\<lambda>s. s) untimed_pages ''t'' 1 0
       = Inl AttributeError"
  by code_simp

text \<open>
  C5. The claim is that \<^verbatim>\<open>get_player_list\<close> returns the empty list both when the post is
  absent from its page and when the post has no ordered list. The first holds; in the
  second case \<^verbatim>\<open>post.find('ol')\<close> is \<^verbatim>\<open>None\<close> and the call raises \<^verbatim>\<open>AttributeError\<close>.
\<close>

theorem get_player_list_no_list:
  "get_player_list ascii_int ascii_lower (\<lambda>s. s) roster_pages ''t'' 5 = Inl AttributeError
   \<and> get_player_list ascii_int ascii_lower (\<lambda>s. s) roster_pages ''t'' 6 = Inr []
   \<and> get_player_list ascii_int ascii_lower (\<lambda>s. s) roster_pages ''t'' 35
       = Inr [''ana'', ''luis'']"
proof -
  have pages: "get_page_number_from_post 5 = Inr 1" "get_page_number_from_post 6 = Inr 1"
    "get_page_number_from_post 35 = Inr 2"
    by (simp_all add: get_page_number_from_post_exact)
  have "players_of_posts ascii_int ascii_lower (\<lambda>s. s) 5
          (find_all is_post (roster_pages (''t'' @ ''/'' @ str_int 1))) = Inl AttributeError"
    by code_simp
  moreover have "players_of_posts ascii_int ascii_lower (\<lambda>s. s) 6
          (find_all is_post (roster_pages (''t'' @ ''/'' @ str_int 1))) = Inr []"
    by code_simp
  moreover have "players_of_posts ascii_int ascii_lower (\<lambda>s. s) 35
          (find_all is_post (roster_pages (''t'' @ ''/'' @ str_int 2))) = Inr [''ana'', ''luis'']"
    by code_simp
  ultimately show ?thesis
    by (simp add: get_player_list_def pages)
qed

lemma players_of_posts_absent:
  "\<forall>p \<in> set posts. \<exists>i. int_item py_int p ''data-num'' = Inr i \<and> i \<noteq> start
   \<Longrightarrow> players_of_posts py_int lower strip start posts = Inr []"
  by (induction posts) auto

lemma get_player_list_absent:
  assumes "get_page_number_from_post start = Inr page_number"
    and "\<forall>p \<in> set (find_all is_post (fetch_html (game_thread @ ''/'' @ str_int page_number))).
           \<exists>i. int_item py_int p ''data-num'' = Inr i \<and> i \<noteq> start"
  shows "get_player_list py_int lower strip fetch_html game_thread start = Inr []"
  using assms(1) players_of_posts_absent [OF assms(2)]
  by (simp add: get_player_list_def)

end
